theory Spec2Isabelle
  imports Main "HOL-Library.Code_Target_Numeral"
begin

section \<open>JavaScript strings\<close>

text \<open>
  A JavaScript string is a sequence of UTF-16 code units. The code under study produces
  the letters U+00D3 and U+00F3 and tests for the dashes U+2013 and U+2014, so code units
  are natural numbers rather than 8-bit characters. \<open>js\<close> embeds an ASCII literal.
\<close>

type_synonym jsstring = "nat list"

definition js :: "string \<Rightarrow> jsstring" where
  "js s = map of_char s"

definition isDigit :: "nat \<Rightarrow> bool" where
  "isDigit c = (48 \<le> c \<and> c \<le> 57)"

text \<open>The class \<open>\w\<close> of a regular expression without the \<open>u\<close> flag.\<close>

definition isWordChar :: "nat \<Rightarrow> bool" where
  "isWordChar c = (isDigit c \<or> (65 \<le> c \<and> c \<le> 90) \<or> (97 \<le> c \<and> c \<le> 122) \<or> c = 95)"

text \<open>
  The class \<open>\s\<close>, which is also what \<open>trim\<close> removes: ECMAScript's WhiteSpace
  (tab, VT, FF, the space separators, U+FEFF) and LineTerminator (LF, CR, U+2028, U+2029).
\<close>

definition isSpace :: "nat \<Rightarrow> bool" where
  "isSpace c = (c \<in> set [9, 10, 11, 12, 13, 32, 160, 5760, 8232, 8233, 8239, 8287, 12288, 65279]
                \<or> (8192 \<le> c \<and> c \<le> 8202))"

definition trim :: "jsstring \<Rightarrow> jsstring" where
  "trim s = rev (dropWhile isSpace (rev (dropWhile isSpace s)))"

text \<open>\<open>s.startsWith(p)\<close>.\<close>

definition startsWith :: "jsstring \<Rightarrow> jsstring \<Rightarrow> bool" where
  "startsWith s p = (take (length p) s = p)"

text \<open>
  \<open>s.replace(pat, rep)\<close> with a string pattern: the first occurrence of \<open>pat\<close>
  is replaced. The replacement strings of this program contain no \<open>$\<close>.
\<close>

fun replace_str :: "jsstring \<Rightarrow> jsstring \<Rightarrow> jsstring \<Rightarrow> jsstring" where
  "replace_str pat rep [] = (if pat = [] then rep else [])"
| "replace_str pat rep (c # t) =
     (if startsWith (c # t) pat then rep @ drop (length pat) (c # t)
      else c # replace_str pat rep t)"

text \<open>
  \<open>toUpperCase\<close> on ASCII letters. The program applies it only to matches of
  \<open>/\bolio\b/gi\<close>, which consist of the ASCII letters o, l, i in either case.
\<close>

definition toUpperCase :: "jsstring \<Rightarrow> jsstring" where
  "toUpperCase s = map (\<lambda>c. if 97 \<le> c \<and> c \<le> 122 then c - 32 else c) s"

section \<open>Regular expressions\<close>

text \<open>
  The regular expressions of the program are sequences of quantified character classes,
  with word-boundary and end assertions, one optional non-capturing group and one
  lookahead. \<open>Cls f lo hi\<close> is the greedy \<open>[f]{lo,hi}\<close> (\<open>hi = None\<close>: unbounded),
  \<open>Cap\<close> the same inside a capturing group.
\<close>

datatype rx =
    Cls "nat \<Rightarrow> bool" nat "nat option"
  | Cap "nat \<Rightarrow> bool" nat "nat option"
  | WordB
  | AtEnd
  | Opt "rx list"
  | Ahead "rx list list"

definition one :: "nat \<Rightarrow> rx" where
  "one c = Cls (\<lambda>x. x = c) 1 (Some 1)"

text \<open>An ASCII letter under the \<open>i\<close> flag: itself or its other case.\<close>

definition one_ci :: "nat \<Rightarrow> rx" where
  "one_ci c = Cls (\<lambda>x. x = c \<or> toUpperCase [x] = toUpperCase [c]) 1 (Some 1)"

definition lit :: "string \<Rightarrow> rx list" where
  "lit s = map one (js s)"

definition lit_ci :: "string \<Rightarrow> rx list" where
  "lit_ci s = map one_ci (js s)"

text \<open>How many code units a greedy class takes at most at the head of \<open>s\<close>.\<close>

definition run :: "(nat \<Rightarrow> bool) \<Rightarrow> nat option \<Rightarrow> jsstring \<Rightarrow> nat" where
  "run f hi s = (let n = length (takeWhile f s) in case hi of None \<Rightarrow> n | Some h \<Rightarrow> min h n)"

text \<open>The code unit before the current position, after \<open>k\<close> more units of \<open>s\<close>.\<close>

definition prev_after :: "nat option \<Rightarrow> jsstring \<Rightarrow> nat \<Rightarrow> nat option" where
  "prev_after p s k = (if k = 0 then p else Some (s ! (k - 1)))"

definition is_boundary :: "nat option \<Rightarrow> jsstring \<Rightarrow> bool" where
  "is_boundary p s =
     ((case p of None \<Rightarrow> False | Some c \<Rightarrow> isWordChar c)
      \<noteq> (case s of [] \<Rightarrow> False | c # _ \<Rightarrow> isWordChar c))"

text \<open>
  Backtracking as a list of successes: \<open>ms r p s\<close> lists, in the order in which the
  ECMAScript matcher tries them, the ways in which \<open>r\<close> matches a prefix of \<open>s\<close>
  (\<open>p\<close> is the code unit before \<open>s\<close>): the captures, the last unit consumed, and
  the rest of the input. The head of the list is the match the engine reports.
\<close>

fun ms :: "rx list \<Rightarrow> nat option \<Rightarrow> jsstring \<Rightarrow> (jsstring list \<times> nat option \<times> jsstring) list" where
  "ms [] p s = [([], p, s)]"
| "ms (Cls f lo hi # rs) p s =
     concat (map (\<lambda>k. ms rs (prev_after p s k) (drop k s)) (rev [lo ..< Suc (run f hi s)]))"
| "ms (Cap f lo hi # rs) p s =
     concat (map (\<lambda>k. map (\<lambda>(cs, q, t). (take k s # cs, q, t))
                          (ms rs (prev_after p s k) (drop k s)))
                 (rev [lo ..< Suc (run f hi s)]))"
| "ms (WordB # rs) p s = (if is_boundary p s then ms rs p s else [])"
| "ms (AtEnd # rs) p s = (if s = [] then ms rs p s else [])"
| "ms (Opt body # rs) p s =
     concat (map (\<lambda>(cs, q, t).
                    if length t < length s
                    then map (\<lambda>(cs', q', t'). (cs @ cs', q', t')) (ms rs q t)
                    else [])
                 (ms body p s))
     @ ms rs p s"
| "ms (Ahead alts # rs) p s =
     (if list_ex (\<lambda>alt. ms alt p s \<noteq> []) alts then ms rs p s else [])"

text \<open>
  The leftmost match: what precedes it, the matched text, the captures, the last unit
  consumed and what follows.
\<close>

fun find_first :: "rx list \<Rightarrow> nat option \<Rightarrow> jsstring
    \<Rightarrow> (jsstring \<times> jsstring \<times> jsstring list \<times> nat option \<times> jsstring) option" where
  "find_first r p [] =
     (case ms r p [] of
        (cs, q, t) # _ \<Rightarrow> Some ([], [], cs, q, t)
      | [] \<Rightarrow> None)"
| "find_first r p (c # s) =
     (case ms r p (c # s) of
        (cs, q, t) # _ \<Rightarrow> Some ([], take (length (c # s) - length t) (c # s), cs, q, t)
      | [] \<Rightarrow> map_option (\<lambda>(pre, m, cs, q, t). (c # pre, m, cs, q, t))
                         (find_first r (Some c) s))"

text \<open>\<open>s.match(r)\<close> without the \<open>g\<close> flag: the matched text followed by the captures.\<close>

definition match_rx :: "rx list \<Rightarrow> jsstring \<Rightarrow> jsstring list option" where
  "match_rx r s = map_option (\<lambda>(pre, m, cs, q, t). m # cs) (find_first r None s)"

text \<open>\<open>s.replace(r, rep)\<close> without the \<open>g\<close> flag.\<close>

definition replace_rx :: "rx list \<Rightarrow> jsstring \<Rightarrow> jsstring \<Rightarrow> jsstring" where
  "replace_rx r rep s =
     (case find_first r None s of
        None \<Rightarrow> s
      | Some (pre, m, cs, q, t) \<Rightarrow> pre @ rep @ t)"

text \<open>
  \<open>s.replace(r, f)\<close> with the \<open>g\<close> flag: every match, from left to right, each search
  starting where the last match ended (one unit further after an empty match).
\<close>

function replace_all_rx :: "rx list \<Rightarrow> (jsstring \<Rightarrow> jsstring) \<Rightarrow> nat option \<Rightarrow> jsstring \<Rightarrow> jsstring" where
  "replace_all_rx r f p s =
     (case ms r p s of
        (cs, q, t) # _ \<Rightarrow>
          if length t < length s
          then f (take (length s - length t) s) @ replace_all_rx r f q t
          else f [] @ (case s of [] \<Rightarrow> [] | c # s' \<Rightarrow> c # replace_all_rx r f (Some c) s')
      | [] \<Rightarrow> (case s of [] \<Rightarrow> [] | c # s' \<Rightarrow> c # replace_all_rx r f (Some c) s'))"
  by pat_completeness auto
termination
  by (relation "measure (\<lambda>(r, f, p, s). length s)") auto

declare replace_all_rx.simps [simp del]

section \<open>Field normalizer (src/lib/wp.ts)\<close>

text \<open>\<open>(value || '').replace(/<[^>]+>/g, '').replace(/\s+/g, ' ').trim()\<close>\<close>

definition rx_tag :: "rx list" where
  "rx_tag = lit ''<'' @ [Cls (\<lambda>c. c \<noteq> 62) 1 None] @ lit ''>''"

definition rx_spaces :: "rx list" where
  "rx_spaces = [Cls isSpace 1 None]"

definition stripTags :: "jsstring option \<Rightarrow> jsstring" where
  "stripTags v =
     trim (replace_all_rx rx_spaces (\<lambda>_. js '' '') None
            (replace_all_rx rx_tag (\<lambda>_. []) None
              (case v of None \<Rightarrow> [] | Some s \<Rightarrow> s)))"

text \<open>
  \<open>value.replace(/\bolio\b/gi, match => ...)\<close>: a match in capitals becomes U+00D3
  (211) followed by \<open>LEO\<close>, a match with a capital first letter U+00D3 followed by
  \<open>leo\<close>, any other match U+00F3 (243) followed by \<open>leo\<close>.
\<close>

definition rx_olio :: "rx list" where
  "rx_olio = [WordB] @ lit_ci ''olio'' @ [WordB]"

definition olio_case :: "jsstring \<Rightarrow> jsstring" where
  "olio_case m =
     (if m = toUpperCase m then 211 # js ''LEO''
      else if take 1 m = toUpperCase (take 1 m) then 211 # js ''leo''
      else 243 # js ''leo'')"

definition normalizeMediumText :: "jsstring \<Rightarrow> jsstring" where
  "normalizeMediumText v = replace_all_rx rx_olio olio_case None v"

text \<open>\<open>if (!src) return null; return src.replace('http://', 'https://')\<close>\<close>

definition normalizeImage :: "jsstring option \<Rightarrow> jsstring option" where
  "normalizeImage src =
     (case src of
        None \<Rightarrow> None
      | Some s \<Rightarrow> if s = [] then None else Some (replace_str (js ''http://'') (js ''https://'') s))"

text \<open>
  \<open>deriveDimensions(name, dimensions)\<close>: the structured width and height when both are
  non-empty, else the first \<open>/(\d{2,3})\s*[xX]\s*(\d{2,3})/\<close> of the name.
\<close>

record raw_dims =
  width :: "jsstring option"
  height :: "jsstring option"
  dim_length :: "jsstring option"

definition truthy :: "jsstring option \<Rightarrow> bool" where
  "truthy v = (case v of None \<Rightarrow> False | Some s \<Rightarrow> s \<noteq> [])"

definition is_x :: "nat \<Rightarrow> bool" where
  "is_x c = (c = 120 \<or> c = 88)"

definition rx_dims :: "rx list" where
  "rx_dims = [Cap isDigit 2 (Some 3), Cls isSpace 0 None, Cls is_x 1 (Some 1),
              Cls isSpace 0 None, Cap isDigit 2 (Some 3)]"

definition deriveDimensions :: "jsstring \<Rightarrow> raw_dims option \<Rightarrow> jsstring option" where
  "deriveDimensions nm dims =
     (case dims of
        Some d \<Rightarrow>
          if truthy (width d) \<and> truthy (height d)
          then Some (the (width d) @ js '' x '' @ the (height d) @ js '' in'')
          else (case match_rx rx_dims nm of
                  Some [m, a, b] \<Rightarrow> Some (a @ js '' x '' @ b @ js '' in'')
                | _ \<Rightarrow> None)
      | None \<Rightarrow>
          (case match_rx rx_dims nm of
             Some [m, a, b] \<Rightarrow> Some (a @ js '' x '' @ b @ js '' in'')
           | _ \<Rightarrow> None))"

text \<open>
  \<open>stripDimensionsFromTitle\<close>: the pattern is
  \<open>/\b\d{2,3}\s*[xX]\s*\d{2,3}\b(?:\s*in\.?)?/\<close>; the punctuation class holds the
  two parentheses, the hyphen, the en dash U+2013 (8211) and the em dash U+2014 (8212).
  \<open>cleaned\<close> is the local constant of that name.
\<close>

definition dimensionPattern :: "rx list" where
  "dimensionPattern =
     [WordB, Cls isDigit 2 (Some 3), Cls isSpace 0 None, Cls is_x 1 (Some 1),
      Cls isSpace 0 None, Cls isDigit 2 (Some 3), WordB,
      Opt ([Cls isSpace 0 None] @ lit ''in'' @ [Cls (\<lambda>c. c = 46) 0 (Some 1)])]"

definition rx_punct :: "rx list" where
  "rx_punct = [Cls (\<lambda>c. c \<in> set [40, 41, 45, 8211, 8212]) 1 None]"

definition rx_spaces2 :: "rx list" where
  "rx_spaces2 = [Cls isSpace 2 None]"

definition cleaned :: "jsstring \<Rightarrow> jsstring" where
  "cleaned title' =
     trim (replace_all_rx rx_spaces2 (\<lambda>_. js '' '') None
            (replace_all_rx rx_punct (\<lambda>_. js '' '') None
              (replace_rx dimensionPattern [] title')))"

definition stripDimensionsFromTitle :: "jsstring \<Rightarrow> jsstring option \<Rightarrow> jsstring" where
  "stripDimensionsFromTitle title' dims =
     (if cleaned title' \<noteq> [] then cleaned title'
      else if truthy dims
      then (let t = trim (replace_all_rx rx_spaces2 (\<lambda>_. js '' '') None
                           (replace_str (the dims) [] title'))
            in if t \<noteq> [] then t else title')
      else title')"

text \<open>
  \<open>extractFirstImageSrc\<close>: group 1 of the first
  \<open>/<img[^>]+src\s*=\s*['"]([^'">]+)['"]/i\<close>, normalized as an image.
\<close>

definition is_quote :: "nat \<Rightarrow> bool" where
  "is_quote c = (c = 39 \<or> c = 34)"

definition rx_img :: "rx list" where
  "rx_img =
     lit ''<'' @ lit_ci ''img'' @ [Cls (\<lambda>c. c \<noteq> 62) 1 None] @ lit_ci ''src''
     @ [Cls isSpace 0 None] @ lit ''='' @ [Cls isSpace 0 None, Cls is_quote 1 (Some 1),
        Cap (\<lambda>c. \<not> is_quote c \<and> c \<noteq> 62) 1 None, Cls is_quote 1 (Some 1)]"

definition extractFirstImageSrc :: "jsstring option \<Rightarrow> jsstring option" where
  "extractFirstImageSrc html =
     (if \<not> truthy html then None
      else normalizeImage
             (case match_rx rx_img (the html) of
                Some (m # g # _) \<Rightarrow> Some g
              | _ \<Rightarrow> None))"

section \<open>The platform\<close>

text \<open>
  \<open>Number\<close>, \<open>toLocaleString\<close> and the \<open>URL\<close> constructor belong to the
  JavaScript runtime, not to the repository. They are modelled exactly where that needs
  no floating point, and are parameters elsewhere:
  \<^item> \<open>Number(s)\<close> of a string of decimal digits denoting at most \<open>2^53\<close> is that
    integer; on any other string the runtime decides (\<open>None\<close> is NaN);
  \<^item> \<open>n.toLocaleString('en-US', {minimumFractionDigits: 0, maximumFractionDigits: 2})\<close>
    of such an integer is its digits in groups of three;
  \<^item> \<open>new URL(s)\<close> without a base throws a TypeError when \<open>s\<close> has no scheme
    (WHATWG URL, scheme start state and no scheme state); whether a string with a scheme
    parses is left to the runtime.
\<close>

datatype 'n number = Whole nat | Other 'n

record 'n runtime =
  rt_Number :: "jsstring \<Rightarrow> 'n option"
  rt_toLocaleString :: "'n \<Rightarrow> jsstring"
  rt_URL :: "jsstring \<Rightarrow> bool"

definition digits_value :: "jsstring \<Rightarrow> nat" where
  "digits_value s = foldl (\<lambda>a c. 10 * a + (c - 48)) 0 s"

definition js_Number :: "'n runtime \<Rightarrow> jsstring \<Rightarrow> 'n number option" where
  "js_Number R s =
     (if s \<noteq> [] \<and> list_all isDigit s \<and> digits_value s \<le> 2 ^ 53
      then Some (Whole (digits_value s))
      else map_option Other (rt_Number R s))"

fun digits :: "nat \<Rightarrow> jsstring" where
  "digits n = (if n < 10 then [48 + n] else digits (n div 10) @ [48 + n mod 10])"

declare digits.simps [simp del]

fun group_rev :: "jsstring \<Rightarrow> jsstring" where
  "group_rev (a # b # c # d # r) = a # b # c # 44 # group_rev (d # r)"
| "group_rev s = s"

definition toLocaleString :: "'n runtime \<Rightarrow> 'n number \<Rightarrow> jsstring" where
  "toLocaleString R x =
     (case x of
        Whole n \<Rightarrow> rev (group_rev (rev (digits n)))
      | Other y \<Rightarrow> rt_toLocaleString R y)"

datatype error = TypeError_InvalidURL | Error_MissingBase

definition isAlpha :: "nat \<Rightarrow> bool" where
  "isAlpha c = ((65 \<le> c \<and> c \<le> 90) \<or> (97 \<le> c \<and> c \<le> 122))"

definition url_clean :: "jsstring \<Rightarrow> jsstring" where
  "url_clean s =
     filter (\<lambda>c. c \<notin> set [9, 10, 13])
       (rev (dropWhile (\<lambda>c. c \<le> 32) (rev (dropWhile (\<lambda>c. c \<le> 32) s))))"

fun scheme_rest :: "jsstring \<Rightarrow> bool" where
  "scheme_rest [] = False"
| "scheme_rest (c # s) =
     (if c = 58 then True
      else if isAlpha c \<or> isDigit c \<or> c \<in> set [43, 45, 46] then scheme_rest s
      else False)"

definition has_scheme :: "jsstring \<Rightarrow> bool" where
  "has_scheme s = (case url_clean s of [] \<Rightarrow> False | c # t \<Rightarrow> isAlpha c \<and> scheme_rest t)"

definition new_URL :: "'n runtime \<Rightarrow> jsstring \<Rightarrow> error + jsstring" where
  "new_URL R s = (if has_scheme s \<and> rt_URL R s then Inr s else Inl TypeError_InvalidURL)"

section \<open>Config resolver (env.ts)\<close>

text \<open>
  \<open>getEnvValue(keys)\<close> takes one key or an array of keys; \<open>env\<close> is the build-time
  environment \<open>import.meta.env\<close>, \<open>penv\<close> is \<open>process.env\<close>.
\<close>

datatype keys = Key jsstring | Keys "jsstring list"

definition toArray :: "keys \<Rightarrow> jsstring list" where
  "toArray ks = (case ks of Key k \<Rightarrow> [k] | Keys l \<Rightarrow> l)"

fun getEnvValue_loop :: "(jsstring \<rightharpoonup> jsstring) \<Rightarrow> (jsstring \<rightharpoonup> jsstring) \<Rightarrow> jsstring list \<Rightarrow> jsstring option" where
  "getEnvValue_loop env penv [] = None"
| "getEnvValue_loop env penv (key # rest) =
     (let v = (case env key of Some v \<Rightarrow> Some v | None \<Rightarrow> penv key)
      in case v of Some x \<Rightarrow> Some x | None \<Rightarrow> getEnvValue_loop env penv rest)"

definition getEnvValue :: "(jsstring \<rightharpoonup> jsstring) \<Rightarrow> (jsstring \<rightharpoonup> jsstring) \<Rightarrow> keys \<Rightarrow> jsstring option" where
  "getEnvValue env penv ks = getEnvValue_loop env penv (toArray ks)"

section \<open>Module constants and upstream client (src/lib/wp.ts)\<close>

record config =
  baseUrl :: jsstring
  cacheTtlMs :: int

text \<open>
  \<open>(getEnvValue(['WP_API_BASE', 'PUBLIC_WP_API_BASE']) ?? '').replace(/\/$/, '') || ''\<close>
\<close>

definition baseUrl_of :: "(jsstring \<rightharpoonup> jsstring) \<Rightarrow> (jsstring \<rightharpoonup> jsstring) \<Rightarrow> jsstring" where
  "baseUrl_of env penv =
     replace_rx [one 47, AtEnd] []
       (case getEnvValue env penv (Keys [js ''WP_API_BASE'', js ''PUBLIC_WP_API_BASE'']) of
          None \<Rightarrow> []
        | Some v \<Rightarrow> v)"

definition buildUrl :: "config \<Rightarrow> jsstring \<Rightarrow> error + jsstring" where
  "buildUrl cfg path =
     (if baseUrl cfg = [] then Inl Error_MissingBase
      else Inr (if startsWith path (js ''http'') then path else baseUrl cfg @ path))"

text \<open>
  What the network does with a request is an input of the model: \<open>fetch\<close> rejects, or
  resolves to a response with a status whose body either fails to parse as JSON or is an
  array of raw products. \<open>res.ok\<close> is a status from 200 to 299.

  The source types a raw product as \<open>Record<string, any>\<close>. Its fields are given here
  the types that the helpers consuming them declare (\<open>stripTags(value?: string | null)\<close>,
  \<open>formatPrice(price?: string | null, ...)\<close>, \<open>normalizeImage(src?: string | null)\<close>,
  \<open>dimensions?: {width?: string; height?: string; length?: string}\<close>), which is also
  what the upstream API delivers; \<open>None\<close> is null or undefined. JSON of another shape is
  outside the model.
\<close>

record raw_image =
  src :: "jsstring option"

record raw_item =
  raw_id :: int
  raw_name :: "jsstring option"
  raw_slug :: jsstring
  raw_permalink :: jsstring
  raw_images :: "raw_image list option"
  raw_price :: "jsstring option"
  raw_regular_price :: "jsstring option"
  raw_dimensions :: "raw_dims option"
  raw_description :: "jsstring option"

datatype json_body = JsonRejects | JsonItems "raw_item list"

datatype fetch_result = FetchRejects | Response nat json_body

definition ok :: "nat \<Rightarrow> bool" where
  "ok status = (200 \<le> status \<and> status \<le> 299)"

definition fetchFromWP :: "config \<Rightarrow> fetch_result \<Rightarrow> jsstring \<Rightarrow> error + fetch_result" where
  "fetchFromWP cfg upstream path =
     (case buildUrl cfg path of Inl e \<Rightarrow> Inl e | Inr u \<Rightarrow> Inr upstream)"

section \<open>Price formatting and the product mapper (src/lib/wp.ts)\<close>

text \<open>
  \<open>formatPrice(price, regular)\<close>: \<open>price && !Number.isNaN(Number(price))\<close> holds for
  a present, non-empty string whose \<open>Number\<close> is not NaN.
\<close>

definition usd :: "'n runtime \<Rightarrow> 'n number \<Rightarrow> jsstring" where
  "usd R n = js ''$'' @ toLocaleString R n @ js '' USD''"

definition formatPrice :: "'n runtime \<Rightarrow> jsstring option \<Rightarrow> jsstring option \<Rightarrow> jsstring option" where
  "formatPrice R price regular =
     (let numeric = (if truthy price then js_Number R (the price) else None);
          regularNumeric = (if truthy regular then js_Number R (the regular) else None)
      in case numeric of
           Some n \<Rightarrow> Some (usd R n)
         | None \<Rightarrow> (case regularNumeric of
                      Some n \<Rightarrow> Some (usd R n)
                    | None \<Rightarrow> None))"

record ProductCard =
  ident :: int
  title :: jsstring
  slug :: jsstring
  link :: jsstring
  image :: "jsstring option"
  priceText :: "jsstring option"
  dimensions :: "jsstring option"
  description :: "jsstring option"

text \<open>\<open>item.images?.[0]?.src\<close>\<close>

definition first_src :: "raw_item \<Rightarrow> jsstring option" where
  "first_src item =
     (case raw_images item of
        None \<Rightarrow> None
      | Some [] \<Rightarrow> None
      | Some (i # _) \<Rightarrow> src i)"

text \<open>\<open>a || b\<close> on values that are a string, null or undefined.\<close>

definition js_or :: "jsstring option \<Rightarrow> jsstring option \<Rightarrow> jsstring option" where
  "js_or a b = (if truthy a then a else b)"

definition mapProduct :: "'n runtime \<Rightarrow> raw_item \<Rightarrow> ProductCard option" where
  "mapProduct R item =
     (let rawTitle = normalizeMediumText (stripTags (raw_name item))
      in if rawTitle = [] then None
         else
           (let dims = deriveDimensions rawTitle (raw_dimensions item);
                descriptionRaw = stripTags (raw_description item)
            in Some \<lparr> ident = raw_id item,
                       title = stripDimensionsFromTitle rawTitle dims,
                       slug = raw_slug item,
                       link = raw_permalink item,
                       image = js_or (normalizeImage (first_src item))
                                     (extractFirstImageSrc (raw_description item)),
                       priceText = formatPrice R (raw_price item) (raw_regular_price item),
                       dimensions = dims,
                       description = (if descriptionRaw \<noteq> []
                                      then Some (normalizeMediumText descriptionRaw)
                                      else None) \<rparr>))"

section \<open>The mapper with attributes (the variant of src/lib/wp.ts with a medium field)\<close>

text \<open>
  This variant keeps the title as it is, reads dimensions and medium from the product's
  attributes, writes dimensions without the unit, and \<open>normalizeImage\<close> also removes a
  thumbnail suffix: \<open>/-\d+x\d+(?=\.(?:jpe?g|png|webp))/i\<close>.
\<close>

definition rx_thumb :: "rx list" where
  "rx_thumb =
     lit ''-'' @ [Cls isDigit 1 None] @ lit_ci ''x'' @ [Cls isDigit 1 None,
       Ahead [lit ''.'' @ lit_ci ''jp'' @ [Cls (\<lambda>c. c = 101 \<or> c = 69) 0 (Some 1)] @ lit_ci ''g'',
              lit ''.'' @ lit_ci ''png'',
              lit ''.'' @ lit_ci ''webp'']]"

definition normalizeImage2 :: "jsstring option \<Rightarrow> jsstring option" where
  "normalizeImage2 v =
     (case v of
        None \<Rightarrow> None
      | Some s \<Rightarrow>
          if s = [] then None
          else Some (replace_rx rx_thumb [] (replace_str (js ''http://'') (js ''https://'') s)))"

definition deriveDimensions2 :: "jsstring \<Rightarrow> raw_dims option \<Rightarrow> jsstring option" where
  "deriveDimensions2 nm dims =
     (case dims of
        Some d \<Rightarrow>
          if truthy (width d) \<and> truthy (height d)
          then Some (the (width d) @ js '' x '' @ the (height d))
          else (case match_rx rx_dims nm of
                  Some [m, a, b] \<Rightarrow> Some (a @ js '' x '' @ b)
                | _ \<Rightarrow> None)
      | None \<Rightarrow>
          (case match_rx rx_dims nm of
             Some [m, a, b] \<Rightarrow> Some (a @ js '' x '' @ b)
           | _ \<Rightarrow> None))"

record raw_attribute =
  attr_name :: "jsstring option"
  attr_options :: "jsstring list option"

fun getDimensionsFromAttributes :: "raw_attribute list \<Rightarrow> jsstring option" where
  "getDimensionsFromAttributes [] = None"
| "getDimensionsFromAttributes (attr # rest) =
     (let nm = trim (stripTags (attr_name attr))
      in if nm \<noteq> [] then Some nm else getDimensionsFromAttributes rest)"

fun first_option :: "jsstring list \<Rightarrow> jsstring option" where
  "first_option [] = None"
| "first_option (opt # rest) =
     (let c = trim (stripTags (Some opt))
      in if c \<noteq> [] then Some (normalizeMediumText c) else first_option rest)"

fun getMediumFromAttributes :: "raw_attribute list \<Rightarrow> jsstring option" where
  "getMediumFromAttributes [] = None"
| "getMediumFromAttributes (attr # rest) =
     (case first_option (case attr_options attr of None \<Rightarrow> [] | Some l \<Rightarrow> l) of
        Some m \<Rightarrow> Some m
      | None \<Rightarrow> getMediumFromAttributes rest)"

definition extractFirstImageSrc2 :: "jsstring option \<Rightarrow> jsstring option" where
  "extractFirstImageSrc2 html =
     (if \<not> truthy html then None
      else normalizeImage2
             (case match_rx rx_img (the html) of
                Some (m # g # _) \<Rightarrow> Some g
              | _ \<Rightarrow> None))"

record raw_item2 = raw_item +
  raw_attributes :: "raw_attribute list option"

record ProductCard2 = ProductCard +
  medium :: "jsstring option"

definition mapProduct2 :: "'n runtime \<Rightarrow> raw_item2 \<Rightarrow> ProductCard2 option" where
  "mapProduct2 R item =
     (let rawTitle = normalizeMediumText (stripTags (raw_name item))
      in if rawTitle = [] then None
         else
           (let attributes = (case raw_attributes item of None \<Rightarrow> [] | Some l \<Rightarrow> l);
                descriptionRaw = stripTags (raw_description item)
            in Some \<lparr> ident = raw_id item,
                       title = rawTitle,
                       slug = raw_slug item,
                       link = raw_permalink item,
                       image = js_or (normalizeImage2 (first_src (raw_item.truncate item)))
                                     (extractFirstImageSrc2 (raw_description item)),
                       priceText = formatPrice R (raw_price item) (raw_regular_price item),
                       dimensions = js_or (getDimensionsFromAttributes attributes)
                                          (deriveDimensions2 rawTitle (raw_dimensions item)),
                       description = (if descriptionRaw \<noteq> []
                                      then Some (normalizeMediumText descriptionRaw)
                                      else None),
                       medium = getMediumFromAttributes attributes \<rparr>))"

section \<open>Catalog cache (src/lib/wp.ts)\<close>

text \<open>
  The module state is the single cache slot. \<open>fetches\<close> is a ghost counter of the
  upstream requests issued, so that "no request is issued" can be stated. \<open>limit\<close> is a
  page size, a natural number; \<open>items.slice(0, limit)\<close> is then \<open>take limit items\<close>.
  \<open>Date.now()\<close> is an argument.
\<close>

record CacheEntry =
  items :: "ProductCard list"
  limit :: nat
  expiresAt :: int

record state =
  productsCache :: "CacheEntry option"
  fetches :: nat

definition getCachedProducts :: "config \<Rightarrow> state \<Rightarrow> int \<Rightarrow> nat \<Rightarrow> ProductCard list option" where
  "getCachedProducts cfg st now lim =
     (case productsCache st of
        None \<Rightarrow> None
      | Some e \<Rightarrow>
          if limit e < lim then None
          else if cacheTtlMs cfg > 0 \<and> expiresAt e > now then Some (take lim (items e))
          else None)"

definition getStaleProducts :: "state \<Rightarrow> nat \<Rightarrow> ProductCard list option" where
  "getStaleProducts st lim =
     (case productsCache st of
        None \<Rightarrow> None
      | Some e \<Rightarrow> if limit e < lim then None else Some (take lim (items e)))"

definition setCache :: "config \<Rightarrow> int \<Rightarrow> ProductCard list \<Rightarrow> nat \<Rightarrow> state \<Rightarrow> state" where
  "setCache cfg now its lim st =
     st\<lparr>productsCache := Some \<lparr>items = its, limit = lim, expiresAt = now + cacheTtlMs cfg\<rparr>\<rparr>"

section \<open>Catalog service (src/lib/wp.ts)\<close>

text \<open>\<open>stale ?? []\<close>\<close>

definition or_empty :: "ProductCard list option \<Rightarrow> ProductCard list" where
  "or_empty stale = (case stale of None \<Rightarrow> [] | Some xs \<Rightarrow> xs)"

text \<open>\<open>items.map(mapProduct).filter(item => Boolean(item?.image))\<close>\<close>

definition usable :: "ProductCard option \<Rightarrow> bool" where
  "usable m = (case m of None \<Rightarrow> False | Some c \<Rightarrow> truthy (image c))"

definition products_of :: "'n runtime \<Rightarrow> raw_item list \<Rightarrow> ProductCard list" where
  "products_of R its = map the (filter usable (map (mapProduct R) its))"

text \<open>
  \<open>getProducts(limit)\<close>. \<open>now\<close> is the clock when the cache is consulted, \<open>later\<close>
  the clock when the response has been mapped and is stored, \<open>upstream\<close> what the
  network does if a request is issued. \<open>Inl\<close> is an exception leaving the function (a
  rejected promise); the \<open>new URL\<close> of line 182 stands before the \<open>try\<close>, while
  everything from \<open>fetchFromWP\<close> on is inside it.
\<close>

definition getProducts :: "'n runtime \<Rightarrow> config \<Rightarrow> int \<Rightarrow> int \<Rightarrow> fetch_result \<Rightarrow> nat \<Rightarrow> state
    \<Rightarrow> error + (ProductCard list \<times> state)" where
  "getProducts R cfg now later upstream lim st =
     (if baseUrl cfg = [] then Inr ([], st)
      else case getCachedProducts cfg st now lim of
        Some cached \<Rightarrow> Inr (cached, st)
      | None \<Rightarrow>
         (let stale = getStaleProducts st lim
          in case new_URL R (baseUrl cfg @ js ''/wc/v3/products'') of
               Inl e \<Rightarrow> Inl e
             | Inr url \<Rightarrow>
                (case fetchFromWP cfg upstream url of
                   Inl e \<Rightarrow> Inr (or_empty stale, st)
                 | Inr FetchRejects \<Rightarrow> Inr (or_empty stale, st\<lparr>fetches := Suc (fetches st)\<rparr>)
                 | Inr (Response status body) \<Rightarrow>
                     if \<not> ok status then Inr (or_empty stale, st\<lparr>fetches := Suc (fetches st)\<rparr>)
                     else (case body of
                             JsonRejects \<Rightarrow> Inr (or_empty stale, st\<lparr>fetches := Suc (fetches st)\<rparr>)
                           | JsonItems its \<Rightarrow>
                               (let products = products_of R its
                                in Inr (products,
                                        setCache cfg later products lim
                                          (st\<lparr>fetches := Suc (fetches st)\<rparr>)))))))"

text \<open>\<open>getProductBySlug(slug)\<close>; the \<open>new URL\<close> of line 212 stands before the \<open>try\<close>.\<close>

definition getProductBySlug :: "'n runtime \<Rightarrow> config \<Rightarrow> fetch_result \<Rightarrow> jsstring \<Rightarrow> state
    \<Rightarrow> error + (ProductCard option \<times> state)" where
  "getProductBySlug R cfg upstream slug' st =
     (if baseUrl cfg = [] then Inr (None, st)
      else case new_URL R (baseUrl cfg @ js ''/wc/v3/products'') of
        Inl e \<Rightarrow> Inl e
      | Inr url \<Rightarrow>
         (case fetchFromWP cfg upstream url of
            Inl e \<Rightarrow> Inr (None, st)
          | Inr FetchRejects \<Rightarrow> Inr (None, st\<lparr>fetches := Suc (fetches st)\<rparr>)
          | Inr (Response status body) \<Rightarrow>
              if \<not> ok status then Inr (None, st\<lparr>fetches := Suc (fetches st)\<rparr>)
              else (case body of
                      JsonRejects \<Rightarrow> Inr (None, st\<lparr>fetches := Suc (fetches st)\<rparr>)
                    | JsonItems its \<Rightarrow>
                        Inr (case its of
                               [] \<Rightarrow> None
                             | item # _ \<Rightarrow>
                                 (case mapProduct R item of
                                    None \<Rightarrow> None
                                  | Some mapped \<Rightarrow> if truthy (image mapped) then Some mapped else None),
                             st\<lparr>fetches := Suc (fetches st)\<rparr>))))"

section \<open>Notions used in the statements\<close>

text \<open>
  The live fetch fails: \<open>fetch\<close> rejects, the response is not OK, or its body does not
  parse.
\<close>

definition fetch_fails :: "fetch_result \<Rightarrow> bool" where
  "fetch_fails upstream =
     (case upstream of
        FetchRejects \<Rightarrow> True
      | Response status body \<Rightarrow> \<not> ok status \<or> body = JsonRejects)"


section \<open>Example inputs\<close>

text \<open>
  A runtime that calls every non-integer string NaN and accepts every URL that has a
  scheme, a configuration, and a raw product as the upstream API delivers it.
\<close>

definition R0 :: "unit runtime" where
  "R0 = \<lparr>rt_Number = (\<lambda>_. None), rt_toLocaleString = (\<lambda>_. []), rt_URL = (\<lambda>_. True)\<rparr>"

definition cfg0 :: config where
  "cfg0 = \<lparr>baseUrl = js ''https://shop.test/wp-json'', cacheTtlMs = 300000\<rparr>"

definition item0 :: raw_item where
  "item0 = \<lparr>raw_id = 7,
             raw_name = Some (js ''<b>Olio</b> 24x36''),
             raw_slug = js ''olio'',
             raw_permalink = js ''https://shop.test/olio'',
             raw_images = Some [\<lparr>src = Some (js ''http://shop.test/a.jpg'')\<rparr>],
             raw_price = Some (js ''45''),
             raw_regular_price = Some (js ''60''),
             raw_dimensions = None,
             raw_description = None\<rparr>"

definition card0 :: ProductCard where
  "card0 = \<lparr>ident = 7,
             title = 211 # js ''leo'',
             slug = js ''olio'',
             link = js ''https://shop.test/olio'',
             image = Some (js ''https://shop.test/a.jpg''),
             priceText = Some (js ''$45 USD''),
             dimensions = Some (js ''24 x 36 in''),
             description = None\<rparr>"

definition st0 :: state where
  "st0 = \<lparr>productsCache = None, fetches = 0\<rparr>"

text \<open>A cache filled for 50 items at time 1000, so fresh before time 301000.\<close>

definition st1 :: state where
  "st1 = \<lparr>productsCache = Some \<lparr>items = [card0], limit = 50, expiresAt = 301000\<rparr>, fetches = 1\<rparr>"

definition env0 :: "jsstring \<rightharpoonup> jsstring" where
  "env0 = [js ''WP_CACHE_TTL'' \<mapsto> js ''1'']"

definition penv0 :: "jsstring \<rightharpoonup> jsstring" where
  "penv0 = [js ''WP_USERNAME'' \<mapsto> js ''2'', js ''WP_CACHE_TTL'' \<mapsto> js ''3'']"

text \<open>A base URL written without its scheme.\<close>

definition cfg_noscheme :: config where
  "cfg_noscheme = \<lparr>baseUrl = js ''shop.test/wp-json'', cacheTtlMs = 300000\<rparr>"

definition item_untitled :: raw_item where
  "item_untitled = item0\<lparr>raw_name := Some (js ''<br> '')\<rparr>"

definition item_dims_only :: raw_item where
  "item_dims_only = item0\<lparr>raw_name := Some (js ''24x36'')\<rparr>"

definition item2_0 :: raw_item2 where
  "item2_0 = raw_item.extend item0
     \<lparr>raw_attributes = Some [\<lparr>attr_name = Some (js ''30 x 40 cm''), attr_options = Some [js ''Olio su tela'']\<rparr>]\<rparr>"

definition item2_untitled :: raw_item2 where
  "item2_untitled = raw_item.extend item_untitled \<lparr>raw_attributes = None\<rparr>"


definition card_desc_img :: ProductCard where
  "card_desc_img = card0\<lparr>image := Some (js ''https://s.t/b.png'')\<rparr>"

definition item_noimg :: raw_item where
  "item_noimg = item0\<lparr>raw_images := None\<rparr>"

definition card_noimg :: ProductCard where
  "card_noimg = card0\<lparr>image := None\<rparr>"

text \<open>The state after a first \<open>getProducts(50)\<close> at time 1000 that received 51 products.\<close>

definition st51 :: state where
  "st51 = setCache cfg0 1000 (replicate 51 card0) 50 (st0\<lparr>fetches := Suc (fetches st0)\<rparr>)"

section \<open>Evaluation\<close>

lemmas rx_eval =
  js_def isDigit_def isSpace_def isWordChar_def is_x_def is_quote_def run_def prev_after_def
  is_boundary_def one_def one_ci_def lit_def lit_ci_def toUpperCase_def trim_def
  startsWith_def truthy_def match_rx_def replace_rx_def replace_all_rx.simps

lemma mapProduct_item0: "mapProduct R0 item0 = Some card0"
  by (simp add: mapProduct_def item0_def card0_def R0_def stripTags_def rx_tag_def rx_spaces_def
      normalizeMediumText_def rx_olio_def olio_case_def deriveDimensions_def rx_dims_def
      stripDimensionsFromTitle_def cleaned_def dimensionPattern_def rx_punct_def rx_spaces2_def
      normalizeImage_def first_src_def js_or_def extractFirstImageSrc_def formatPrice_def
      usd_def js_Number_def digits_value_def toLocaleString_def digits.simps rx_eval)

section \<open>The catalog cache\<close>

lemma getCachedProducts_Some_iff:
  "getCachedProducts cfg st now lim = Some xs \<longleftrightarrow>
     (\<exists>e. productsCache st = Some e \<and> lim \<le> limit e \<and> 0 < cacheTtlMs cfg
          \<and> now < expiresAt e \<and> xs = take lim (items e))"
  by (auto simp: getCachedProducts_def split: option.splits)

lemma getCachedProducts_None_iff:
  "getCachedProducts cfg st now lim = None \<longleftrightarrow>
     \<not> (\<exists>e. productsCache st = Some e \<and> lim \<le> limit e \<and> 0 < cacheTtlMs cfg
            \<and> now < expiresAt e)"
  by (auto simp: getCachedProducts_def split: option.splits)

lemma getStaleProducts_eq:
  "getStaleProducts st lim =
     (case productsCache st of
        None \<Rightarrow> None
      | Some e \<Rightarrow> if lim \<le> limit e then Some (take lim (items e)) else None)"
  by (auto simp: getStaleProducts_def split: option.splits)

lemma getProducts_miss_fetches:
  assumes "getCachedProducts cfg st now lim = None" and "baseUrl cfg \<noteq> []"
    and "getProducts R cfg now later upstream lim st = Inr (r, st')"
  shows "fetches st' = Suc (fetches st)"
  using assms
  by (auto simp: getProducts_def Let_def fetchFromWP_def buildUrl_def setCache_def
      split: sum.splits fetch_result.splits json_body.splits if_splits)

lemma getProducts_success:
  assumes "baseUrl cfg \<noteq> []" and "getCachedProducts cfg st now lim = None"
    and "new_URL R (baseUrl cfg @ js ''/wc/v3/products'') = Inr u" and "ok status"
  shows "getProducts R cfg now later (Response status (JsonItems its)) lim st
         = Inr (products_of R its,
                setCache cfg later (products_of R its) lim (st\<lparr>fetches := Suc (fetches st)\<rparr>))"
  using assms by (simp add: getProducts_def Let_def fetchFromWP_def buildUrl_def)

text \<open>
  C3: \<open>getCachedProducts(limit)\<close> returns the first \<open>limit\<close> cached items exactly when
  an entry exists, its stored limit is at least the requested one, the configured TTL is
  strictly positive and the current time is strictly before \<open>expiresAt\<close>; in every other
  case it returns absent, and a \<open>getProducts\<close> that returns then has issued an upstream
  request instead of serving the cache.
\<close>

theorem getCachedProducts_fresh_iff:
  "(getCachedProducts cfg st now lim = Some xs \<longleftrightarrow>
      (\<exists>e. productsCache st = Some e \<and> lim \<le> limit e \<and> 0 < cacheTtlMs cfg
           \<and> now < expiresAt e \<and> xs = take lim (items e)))
   \<and> (getCachedProducts cfg st now lim = None \<longleftrightarrow>
      \<not> (\<exists>e. productsCache st = Some e \<and> lim \<le> limit e \<and> 0 < cacheTtlMs cfg
             \<and> now < expiresAt e))
   \<and> (getCachedProducts cfg st now lim = None \<and> baseUrl cfg \<noteq> []
       \<and> getProducts R cfg now later upstream lim st = Inr (r, st')
       \<longrightarrow> fetches st' = Suc (fetches st))"
  using getCachedProducts_Some_iff [of cfg st now lim xs]
    getCachedProducts_None_iff [of cfg st now lim]
    getProducts_miss_fetches [of cfg st now lim R later upstream r st']
  by blast

lemma cfg0_url: "new_URL R0 (baseUrl cfg0 @ js ''/wc/v3/products'') = Inr (baseUrl cfg0 @ js ''/wc/v3/products'')"
  by (simp add: new_URL_def has_scheme_def url_clean_def cfg0_def R0_def js_def isAlpha_def isDigit_def)

lemma cfg0_base: "baseUrl cfg0 \<noteq> []"
  by (simp add: cfg0_def js_def)

lemma cfg0_ttl: "cacheTtlMs cfg0 = 300000"
  by (simp add: cfg0_def)

lemma card0_image: "truthy (image card0)"
  by (simp add: card0_def truthy_def js_def)

lemma st1_cache: "productsCache st1 = Some \<lparr>items = [card0], limit = 50, expiresAt = 301000\<rparr>"
  by (simp add: st1_def)

lemma st1_fetches: "fetches st1 = 1"
  by (simp add: st1_def)

lemma products_item0: "products_of R0 [item0] = [card0]"
  by (simp add: products_of_def mapProduct_item0 usable_def card0_image)

text \<open>
  At time 2000 the cache \<open>st1\<close> serves a request for 50; a request for 51 exceeds the
  cached limit, is absent, and \<open>getProducts(51)\<close> fetches.
\<close>

theorem getCachedProducts_fresh_iff_witness:
  "getCachedProducts cfg0 st1 2000 50 = Some [card0]
   \<and> getCachedProducts cfg0 st1 2000 51 = None \<and> baseUrl cfg0 \<noteq> []
   \<and> getProducts R0 cfg0 2000 2500 (Response 200 (JsonItems [item0])) 51 st1
       = Inr ([card0], setCache cfg0 2500 [card0] 51 (st1\<lparr>fetches := Suc (fetches st1)\<rparr>))
   \<and> fetches (setCache cfg0 2500 [card0] 51 (st1\<lparr>fetches := Suc (fetches st1)\<rparr>)) = Suc (fetches st1)"
proof -
  have a: "getCachedProducts cfg0 st1 2000 50 = Some [card0]"
    by (simp add: getCachedProducts_def st1_cache cfg0_ttl)
  have b: "getCachedProducts cfg0 st1 2000 51 = None"
    by (simp add: getCachedProducts_def st1_cache)
  have c: "getProducts R0 cfg0 2000 2500 (Response 200 (JsonItems [item0])) 51 st1
       = Inr ([card0], setCache cfg0 2500 [card0] 51 (st1\<lparr>fetches := Suc (fetches st1)\<rparr>))"
    using getProducts_success [OF cfg0_base b cfg0_url, of 200 2500 "[item0]"]
    by (simp add: ok_def products_item0)
  from getCachedProducts_fresh_iff [of cfg0 st1 2000 51 "[card0]" R0 2500
      "Response 200 (JsonItems [item0])" "[card0]"
      "setCache cfg0 2500 [card0] 51 (st1\<lparr>fetches := Suc (fetches st1)\<rparr>)"]
    a b c cfg0_base
  show ?thesis by simp
qed

section \<open>The config resolver\<close>

lemma getEnvValue_loop_find:
  "getEnvValue_loop env penv l =
     (case find (\<lambda>k. k \<in> dom env \<union> dom penv) l of
        None \<Rightarrow> None
      | Some k \<Rightarrow> (case env k of Some v \<Rightarrow> Some v | None \<Rightarrow> penv k))"
  by (induction l) (auto simp: Let_def split: option.splits)

lemma getEnvValue_loop_None:
  "getEnvValue_loop env penv l = None \<longleftrightarrow> set l \<inter> (dom env \<union> dom penv) = {}"
  by (induction l) (auto simp: Let_def split: option.splits)

text \<open>
  C9: for every sequence of candidate keys and every pair of environments,
  \<open>getEnvValue\<close> returns the value of the first key, in the given order, that is
  defined in the build-time environment or in the process environment (the build-time
  value when that key has both), and absent exactly when no candidate is defined in
  either.
\<close>

theorem getEnvValue_first_defined:
  "getEnvValue env penv ks =
     (case find (\<lambda>k. k \<in> dom env \<union> dom penv) (toArray ks) of
        None \<Rightarrow> None
      | Some k \<Rightarrow> (case env k of Some v \<Rightarrow> Some v | None \<Rightarrow> penv k))
   \<and> (getEnvValue env penv ks = None \<longleftrightarrow> set (toArray ks) \<inter> (dom env \<union> dom penv) = {})"
  unfolding getEnvValue_def
  using getEnvValue_loop_find [of env penv "toArray ks"]
    getEnvValue_loop_None [of env penv "toArray ks"]
  by blast

text \<open>
  \<open>WP_CACHE_TTL_MS\<close> is undefined, \<open>WP_CACHE_TTL\<close> is defined in both
  environments: the build-time value wins.
\<close>

theorem getEnvValue_first_defined_witness:
  "getEnvValue env0 penv0 (Keys [js ''WP_CACHE_TTL_MS'', js ''WP_CACHE_TTL'', js ''WP_USERNAME''])
     = Some (js ''1'')
   \<and> getEnvValue env0 penv0 (Key (js ''WP_USERNAME'')) = Some (js ''2'')
   \<and> getEnvValue env0 penv0 (Key (js ''WP_API_BASE'')) = None"
  using getEnvValue_first_defined [of env0 penv0 "Keys [js ''WP_CACHE_TTL_MS'', js ''WP_CACHE_TTL'', js ''WP_USERNAME'']"]
    getEnvValue_first_defined [of env0 penv0 "Key (js ''WP_USERNAME'')"]
    getEnvValue_first_defined [of env0 penv0 "Key (js ''WP_API_BASE'')"]
  by (simp add: toArray_def env0_def penv0_def js_def)

section \<open>Price formatting\<close>

lemma js_Number_45: "js_Number R (js ''45'') = Some (Whole 45)"
  by (simp add: js_Number_def js_def isDigit_def digits_value_def)

lemma js_Number_60: "js_Number R (js ''60'') = Some (Whole 60)"
  by (simp add: js_Number_def js_def isDigit_def digits_value_def)

lemma toLocaleString_45: "toLocaleString R (Whole 45) = js ''45''"
  by (simp add: toLocaleString_def digits.simps js_def)

lemma toLocaleString_60: "toLocaleString R (Whole 60) = js ''60''"
  by (simp add: toLocaleString_def digits.simps js_def)

lemma toLocaleString_1234567: "toLocaleString R (Whole 1234567) = js ''1,234,567''"
  by (simp add: toLocaleString_def digits.simps js_def)

text \<open>
  C8: \<open>formatPrice\<close> returns the USD string of the sale price whenever the sale price
  parses as a number (it is present, non-empty and its \<open>Number\<close> is not NaN), else that
  of the regular price whenever that parses as a number, else absent; and
  \<open>formatPrice("45", "60") = "$45 USD"\<close>, \<open>formatPrice(undefined, "60") = "$60 USD"\<close>,
  \<open>formatPrice(undefined, undefined)\<close> is absent.
\<close>

theorem formatPrice_prefers_sale:
  "(truthy price \<and> js_Number R (the price) = Some n
      \<longrightarrow> formatPrice R price regular = Some (js ''$'' @ toLocaleString R n @ js '' USD''))
   \<and> (\<not> (truthy price \<and> js_Number R (the price) \<noteq> None)
       \<and> truthy regular \<and> js_Number R (the regular) = Some n
      \<longrightarrow> formatPrice R price regular = Some (js ''$'' @ toLocaleString R n @ js '' USD''))
   \<and> (\<not> (truthy price \<and> js_Number R (the price) \<noteq> None)
       \<and> \<not> (truthy regular \<and> js_Number R (the regular) \<noteq> None)
      \<longrightarrow> formatPrice R price regular = None)
   \<and> formatPrice R (Some (js ''45'')) (Some (js ''60'')) = Some (js ''$45 USD'')
   \<and> formatPrice R None (Some (js ''60'')) = Some (js ''$60 USD'')
   \<and> formatPrice R None None = None"
proof -
  have ex1: "formatPrice R (Some (js ''45'')) (Some (js ''60'')) = Some (js ''$45 USD'')"
    by (simp add: formatPrice_def usd_def truthy_def js_Number_45 js_Number_60 toLocaleString_45)
       (simp add: js_def)
  have ex2: "formatPrice R None (Some (js ''60'')) = Some (js ''$60 USD'')"
    by (simp add: formatPrice_def usd_def truthy_def js_Number_60 toLocaleString_60)
       (simp add: js_def)
  have ex3: "formatPrice R None None = None"
    by (simp add: formatPrice_def truthy_def)
  show ?thesis
    using ex1 ex2 ex3
    by (auto simp: formatPrice_def usd_def Let_def split: option.splits)
qed

text \<open>
  A non-numeric sale price falls back to the regular price, which is grouped in
  thousands; so does an empty sale price; two unusable prices give absent.
\<close>

theorem formatPrice_prefers_sale_witness:
  "formatPrice R0 (Some (js ''abc'')) (Some (js ''1234567'')) = Some (js ''$1,234,567 USD'')
   \<and> formatPrice R0 (Some []) (Some (js ''60'')) = Some (js ''$60 USD'')
   \<and> formatPrice R0 (Some (js ''45'')) (Some (js ''60'')) = Some (js ''$45 USD'')
   \<and> formatPrice R0 (Some (js ''abc'')) None = None"
proof -
  have n1: "js_Number R0 (js ''abc'') = None"
    by (simp add: js_Number_def js_def isDigit_def R0_def)
  have n2: "js_Number R0 (js ''1234567'') = Some (Whole 1234567)"
    by (simp add: js_Number_def js_def isDigit_def digits_value_def)
  have t: "truthy (Some (js ''abc''))" "truthy (Some (js ''1234567''))" "truthy (Some (js ''60''))"
    "\<not> truthy (Some [])" "\<not> truthy None" "truthy (Some (js ''45''))"
    by (simp_all add: truthy_def js_def)
  show ?thesis
    using formatPrice_prefers_sale [of "Some (js ''abc'')" R0 "Whole 1234567" "Some (js ''1234567'')"]
      formatPrice_prefers_sale [of "Some []" R0 "Whole 60" "Some (js ''60'')"]
      formatPrice_prefers_sale [of "Some (js ''abc'')" R0 "Whole 0" None]
      n1 n2 t js_Number_60 [of R0] toLocaleString_1234567 [of R0] toLocaleString_60 [of R0]
    by (simp add: js_def)
qed

section \<open>Facts about the field normalizer\<close>

lemma replace_all_rx_nonempty:
  assumes "\<And>m. f m \<noteq> []" and "s \<noteq> []"
  shows "replace_all_rx r f p s \<noteq> []"
proof -
  obtain c s' where s: "s = c # s'"
    using assms(2) by (cases s) auto
  show ?thesis
    unfolding s
    by (subst replace_all_rx.simps) (auto simp: assms(1) split: list.splits)
qed

lemma ms_rx_olio_Nil: "ms rx_olio None [] = []"
  by (simp add: rx_olio_def is_boundary_def)

lemma olio_case_nonempty: "olio_case m \<noteq> []"
  by (simp add: olio_case_def)

lemma normalizeMediumText_empty_iff: "normalizeMediumText s = [] \<longleftrightarrow> s = []"
proof
  assume "normalizeMediumText s = []"
  then show "s = []"
    using replace_all_rx_nonempty [of olio_case s rx_olio None] olio_case_nonempty
    by (auto simp: normalizeMediumText_def)
next
  assume "s = []"
  then show "normalizeMediumText s = []"
    by (simp add: normalizeMediumText_def replace_all_rx.simps [of _ _ _ "[]"] ms_rx_olio_Nil)
qed





lemma stripDimensionsFromTitle_nonempty: "t \<noteq> [] \<Longrightarrow> stripDimensionsFromTitle t d \<noteq> []"
  by (simp add: stripDimensionsFromTitle_def Let_def)

lemma mapProduct_None_iff:
  "mapProduct R item = None \<longleftrightarrow> normalizeMediumText (stripTags (raw_name item)) = []"
  by (simp add: mapProduct_def Let_def)

lemma mapProduct2_None_iff:
  "mapProduct2 R item2 = None \<longleftrightarrow> normalizeMediumText (stripTags (raw_name item2)) = []"
  by (simp add: mapProduct2_def Let_def)

lemma mapProduct_title:
  "mapProduct R item = Some pc \<Longrightarrow>
     title pc = stripDimensionsFromTitle (normalizeMediumText (stripTags (raw_name item)))
                    (deriveDimensions (normalizeMediumText (stripTags (raw_name item))) (raw_dimensions item))"
  by (auto simp: mapProduct_def Let_def split: if_splits)


lemmas map_eval = mapProduct_def stripTags_def rx_tag_def rx_spaces_def
      normalizeMediumText_def rx_olio_def olio_case_def deriveDimensions_def rx_dims_def
      stripDimensionsFromTitle_def cleaned_def dimensionPattern_def rx_punct_def rx_spaces2_def
      normalizeImage_def first_src_def js_or_def extractFirstImageSrc_def formatPrice_def
      usd_def js_Number_def digits_value_def toLocaleString_def digits.simps rx_eval

lemma stripTags_item0: "stripTags (raw_name item0) = js ''Olio 24x36''"
  by (simp add: item0_def stripTags_def rx_tag_def rx_spaces_def rx_eval)

lemma stripTags_untitled: "stripTags (raw_name item_untitled) = []"
  by (simp add: item_untitled_def item0_def stripTags_def rx_tag_def rx_spaces_def rx_eval)

lemma raw_name_item2_0: "raw_name item2_0 = raw_name item0"
  by (simp add: item2_0_def raw_item.defs)

lemma raw_name_item2_untitled: "raw_name item2_untitled = raw_name item_untitled"
  by (simp add: item2_untitled_def raw_item.defs)

lemma cleaned_dims_only: "cleaned (js ''24x36'') = []"
  by (simp add: cleaned_def dimensionPattern_def rx_punct_def rx_spaces2_def rx_eval)

lemma cleaned_with_unit: "cleaned (js ''24 x 36 in'') = []"
  by (simp add: cleaned_def dimensionPattern_def rx_punct_def rx_spaces2_def rx_eval)

lemma cleaned_titled: "cleaned (js ''Sea 24x36'') = js ''Sea''"
  by (simp add: cleaned_def dimensionPattern_def rx_punct_def rx_spaces2_def rx_eval)

lemma removed_absent:
  "trim (replace_all_rx rx_spaces2 (\<lambda>_. js '' '') None
          (replace_str (js ''24 x 36 in'') [] (js ''24x36''))) = js ''24x36''"
  by (simp add: rx_spaces2_def rx_eval)

lemma removed_all:
  "trim (replace_all_rx rx_spaces2 (\<lambda>_. js '' '') None
          (replace_str (js ''24 x 36 in'') [] (js ''24 x 36 in''))) = []"
  by (simp add: rx_spaces2_def rx_eval)

lemma mapProduct_dims_only:
  "mapProduct R0 item_dims_only = Some (card0\<lparr>title := js ''24x36''\<rparr>)"
  by (simp add: item_dims_only_def item0_def card0_def R0_def map_eval)

section \<open>The product mapper\<close>

text \<open>
  C5: \<open>mapProduct\<close> returns absent exactly when the item's name, after tag-stripping
  and medium-text normalization, is the empty string (which is exactly when the
  tag-stripped name is empty); when the stripped name is non-empty it returns a card. This
  holds for the title-scrubbing mapper and for the mapper with attributes.
\<close>

theorem mapProduct_absent_iff_no_title:
  "(mapProduct R item = None \<longleftrightarrow> normalizeMediumText (stripTags (raw_name item)) = [])
   \<and> (mapProduct R item = None \<longleftrightarrow> stripTags (raw_name item) = [])
   \<and> (stripTags (raw_name item) \<noteq> [] \<longrightarrow> (\<exists>pc. mapProduct R item = Some pc))
   \<and> (mapProduct2 R item2 = None \<longleftrightarrow> normalizeMediumText (stripTags (raw_name item2)) = [])
   \<and> (mapProduct2 R item2 = None \<longleftrightarrow> stripTags (raw_name item2) = [])
   \<and> (stripTags (raw_name item2) \<noteq> [] \<longrightarrow> (\<exists>pc2. mapProduct2 R item2 = Some pc2))"
  using mapProduct_None_iff [of R item] mapProduct2_None_iff [of R item2]
    normalizeMediumText_empty_iff [of "stripTags (raw_name item)"]
    normalizeMediumText_empty_iff [of "stripTags (raw_name item2)"]
  by auto

text \<open>
  A product named \<open><b>Olio</b> 24x36\<close> is mapped; one named \<open><br>\<close> is not.
\<close>

theorem mapProduct_absent_iff_no_title_witness:
  "stripTags (raw_name item0) \<noteq> [] \<and> mapProduct R0 item0 = Some card0
   \<and> stripTags (raw_name item2_0) \<noteq> [] \<and> (\<exists>pc2. mapProduct2 R0 item2_0 = Some pc2)
   \<and> stripTags (raw_name item_untitled) = [] \<and> mapProduct R0 item_untitled = None
   \<and> stripTags (raw_name item2_untitled) = [] \<and> mapProduct2 R0 item2_untitled = None"
  using mapProduct_absent_iff_no_title [of R0 item0 item2_0]
    mapProduct_absent_iff_no_title [of R0 item_untitled item2_untitled]
    mapProduct_item0
  by (simp add: raw_name_item2_0 raw_name_item2_untitled stripTags_item0 stripTags_untitled js_def)

text \<open>
  C10: in the title-scrubbing mapper a non-empty stripped name gives a card with a
  non-empty title: \<open>stripDimensionsFromTitle\<close> returns the cleaned title when that is
  non-empty, else the title without the derived dimension text when that is non-empty,
  else the title as it was.
\<close>

theorem title_never_empty:
  "(t \<noteq> [] \<longrightarrow> stripDimensionsFromTitle t d \<noteq> [])
   \<and> (cleaned t \<noteq> [] \<longrightarrow> stripDimensionsFromTitle t d = cleaned t)
   \<and> (cleaned t = [] \<and> truthy d
        \<and> trim (replace_all_rx rx_spaces2 (\<lambda>_. js '' '') None (replace_str (the d) [] t)) \<noteq> []
       \<longrightarrow> stripDimensionsFromTitle t d
            = trim (replace_all_rx rx_spaces2 (\<lambda>_. js '' '') None (replace_str (the d) [] t)))
   \<and> (cleaned t = [] \<and> truthy d
        \<and> trim (replace_all_rx rx_spaces2 (\<lambda>_. js '' '') None (replace_str (the d) [] t)) = []
       \<longrightarrow> stripDimensionsFromTitle t d = t)
   \<and> (cleaned t = [] \<and> \<not> truthy d \<longrightarrow> stripDimensionsFromTitle t d = t)
   \<and> (stripTags (raw_name item) \<noteq> []
       \<longrightarrow> (\<exists>pc. mapProduct R item = Some pc \<and> title pc \<noteq> []))
   \<and> (mapProduct R item = Some pc \<longrightarrow> title pc \<noteq> [])"
proof -
  have a: "stripTags (raw_name item) \<noteq> []
       \<longrightarrow> (\<exists>pc. mapProduct R item = Some pc \<and> title pc \<noteq> [])"
    using normalizeMediumText_empty_iff [of "stripTags (raw_name item)"]
    by (auto simp: mapProduct_def Let_def stripDimensionsFromTitle_nonempty)
  have b: "mapProduct R item = Some pc \<longrightarrow> title pc \<noteq> []"
    by (auto simp: mapProduct_def Let_def stripDimensionsFromTitle_nonempty split: if_splits)
  show ?thesis
    using a b by (simp add: stripDimensionsFromTitle_def Let_def)
qed

text \<open>
  \<open>Sea 24x36\<close> is cleaned to \<open>Sea\<close>; \<open>24x36\<close> would be cleaned to nothing and does
  not contain \<open>24 x 36 in\<close>, so it stays; \<open>24 x 36 in\<close> would lose everything either
  way and stays as it was.
\<close>

theorem title_never_empty_witness:
  "stripDimensionsFromTitle (js ''Sea 24x36'') (Some (js ''24 x 36 in'')) = js ''Sea''
   \<and> stripDimensionsFromTitle (js ''24x36'') (Some (js ''24 x 36 in'')) = js ''24x36''
   \<and> stripDimensionsFromTitle (js ''24 x 36 in'') (Some (js ''24 x 36 in'')) = js ''24 x 36 in''
   \<and> stripDimensionsFromTitle (js ''24x36'') None = js ''24x36''
   \<and> mapProduct R0 item_dims_only = Some (card0\<lparr>title := js ''24x36''\<rparr>)
   \<and> title (card0\<lparr>title := js ''24x36''\<rparr>) \<noteq> []"
  using title_never_empty [of "js ''Sea 24x36''" "Some (js ''24 x 36 in'')" item_dims_only R0
      "card0\<lparr>title := js ''24x36''\<rparr>"]
    title_never_empty [of "js ''24x36''" "Some (js ''24 x 36 in'')" item_dims_only R0
      "card0\<lparr>title := js ''24x36''\<rparr>"]
    title_never_empty [of "js ''24 x 36 in''" "Some (js ''24 x 36 in'')" item_dims_only R0
      "card0\<lparr>title := js ''24x36''\<rparr>"]
    title_never_empty [of "js ''24x36''" None item_dims_only R0
      "card0\<lparr>title := js ''24x36''\<rparr>"]
    mapProduct_dims_only cleaned_dims_only cleaned_with_unit cleaned_titled removed_absent removed_all
  by (simp add: truthy_def) (simp add: js_def)


lemma mapProduct_noimg: "mapProduct R0 item_noimg = Some card_noimg"
  by (simp add: item_noimg_def card_noimg_def item0_def card0_def R0_def rx_img_def map_eval)


section \<open>The catalog service\<close>

lemma products_of_filter:
  "products_of R its = filter (\<lambda>c. truthy (image c)) (List.map_filter (mapProduct R) its)"
  by (induction its) (auto simp: products_of_def usable_def List.map_filter_simps split: option.splits)


lemma products_of_mem:
  "c \<in> set (products_of R its) \<longleftrightarrow> (\<exists>i \<in> set its. mapProduct R i = Some c \<and> truthy (image c))"
  by (force simp: products_of_filter List.map_filter_def)

lemma getProducts_no_base: "baseUrl cfg = [] \<Longrightarrow> getProducts R cfg now later upstream lim st = Inr ([], st)"
  by (simp add: getProducts_def)

lemma getProducts_fresh:
  "baseUrl cfg \<noteq> [] \<Longrightarrow> getCachedProducts cfg st now lim = Some xs
   \<Longrightarrow> getProducts R cfg now later upstream lim st = Inr (xs, st)"
  by (simp add: getProducts_def)

lemma getProducts_bad_url:
  "baseUrl cfg \<noteq> [] \<Longrightarrow> getCachedProducts cfg st now lim = None
   \<Longrightarrow> new_URL R (baseUrl cfg @ js ''/wc/v3/products'') = Inl e
   \<Longrightarrow> getProducts R cfg now later upstream lim st = Inl e"
  by (simp add: getProducts_def)

lemma getProducts_failure:
  assumes "baseUrl cfg \<noteq> []" and "getCachedProducts cfg st now lim = None"
    and "new_URL R (baseUrl cfg @ js ''/wc/v3/products'') = Inr u" and "fetch_fails upstream"
  shows "getProducts R cfg now later upstream lim st
         = Inr (or_empty (getStaleProducts st lim), st\<lparr>fetches := Suc (fetches st)\<rparr>)"
  using assms
  by (auto simp: getProducts_def Let_def fetchFromWP_def buildUrl_def fetch_fails_def
      split: fetch_result.splits json_body.splits)

lemma fetch_cases:
  "fetch_fails upstream \<or> (\<exists>status its. upstream = Response status (JsonItems its) \<and> ok status)"
proof (cases upstream)
  case FetchRejects
  then show ?thesis by (simp add: fetch_fails_def)
next
  case (Response status body)
  then show ?thesis by (cases body) (auto simp: fetch_fails_def)
qed

lemma new_URL_cases: "new_URL R s = Inr s \<or> new_URL R s = Inl TypeError_InvalidURL"
  by (simp add: new_URL_def)

lemma getProducts_throws_iff:
  "getProducts R cfg now later upstream lim st = Inl e \<longleftrightarrow>
     baseUrl cfg \<noteq> [] \<and> getCachedProducts cfg st now lim = None
     \<and> new_URL R (baseUrl cfg @ js ''/wc/v3/products'') = Inl e"
  by (auto simp: getProducts_def Let_def fetchFromWP_def buildUrl_def
      split: option.splits sum.splits fetch_result.splits json_body.splits)

lemma baseUrl_of_unset:
  "getEnvValue env penv (Keys [js ''WP_API_BASE'', js ''PUBLIC_WP_API_BASE'']) = None
   \<Longrightarrow> baseUrl_of env penv = []"
  by (simp add: baseUrl_of_def replace_rx_def one_def)

lemma cfg_noscheme_base: "baseUrl cfg_noscheme \<noteq> []"
  by (simp add: cfg_noscheme_def js_def)

lemma cfg_noscheme_url:
  "new_URL R (baseUrl cfg_noscheme @ js ''/wc/v3/products'') = Inl TypeError_InvalidURL"
  by (simp add: new_URL_def has_scheme_def url_clean_def cfg_noscheme_def js_def isAlpha_def isDigit_def)

lemma st0_miss: "getCachedProducts cfg st0 now lim = None"
  by (simp add: getCachedProducts_def st0_def)

text \<open>
  C1 as stated fails: with the base URL \<open>shop.test/wp-json\<close>, which has no scheme,
  \<open>new URL\<close> throws before the \<open>try\<close> block is entered and \<open>getProducts\<close> rejects.
\<close>

theorem getProducts_throws_counterexample:
  "getProducts R0 cfg_noscheme 0 0 (Response 200 (JsonItems [])) 10 st0 = Inl TypeError_InvalidURL"
  using getProducts_bad_url [of cfg_noscheme st0 0 10 R0 TypeError_InvalidURL 0 "Response 200 (JsonItems [])"]
    cfg_noscheme_base st0_miss [of cfg_noscheme 0 10] cfg_noscheme_url [of R0]
  by simp

text \<open>
  C1, amended: for every configuration whose base URL is empty or gives a request URL
  that parses, and every upstream behaviour, \<open>getProducts\<close> returns a sequence of cards
  and throws nothing; with no base URL configured it returns the empty sequence and
  issues no request. It throws exactly when the base URL is non-empty, the cache is not
  fresh and the request URL does not parse.
\<close>

theorem getProducts_never_throws_valid_url:
  "(baseUrl cfg = [] \<longrightarrow> getProducts R cfg now later upstream lim st = Inr ([], st))
   \<and> (getEnvValue env penv (Keys [js ''WP_API_BASE'', js ''PUBLIC_WP_API_BASE'']) = None
       \<longrightarrow> baseUrl_of env penv = [])
   \<and> (baseUrl cfg = [] \<or> new_URL R (baseUrl cfg @ js ''/wc/v3/products'') \<noteq> Inl TypeError_InvalidURL
       \<longrightarrow> (\<exists>ps st'. getProducts R cfg now later upstream lim st = Inr (ps, st')))
   \<and> (getProducts R cfg now later upstream lim st = Inl e \<longleftrightarrow>
        baseUrl cfg \<noteq> [] \<and> getCachedProducts cfg st now lim = None
        \<and> new_URL R (baseUrl cfg @ js ''/wc/v3/products'') = Inl e)"
proof -
  have total: "\<exists>ps st'. getProducts R cfg now later upstream lim st = Inr (ps, st')"
    if "baseUrl cfg = [] \<or> new_URL R (baseUrl cfg @ js ''/wc/v3/products'') \<noteq> Inl TypeError_InvalidURL"
  proof (cases "getProducts R cfg now later upstream lim st")
    case (Inl e')
    then have "new_URL R (baseUrl cfg @ js ''/wc/v3/products'') = Inl e'" and "baseUrl cfg \<noteq> []"
      by (simp_all add: getProducts_throws_iff)
    with that new_URL_cases [of R "baseUrl cfg @ js ''/wc/v3/products''"] show ?thesis
      by auto
  next
    case (Inr r)
    then show ?thesis by (cases r) auto
  qed
  show ?thesis
    using total getProducts_no_base [of cfg R now later upstream lim st]
      baseUrl_of_unset [of env penv]
      getProducts_throws_iff [of R cfg now later upstream lim st e]
    by blast
qed

text \<open>
  With \<open>cfg0\<close> a failing upstream gives the empty sequence; with an empty base URL no
  request is counted.
\<close>

theorem getProducts_never_throws_valid_url_witness:
  "getProducts R0 (cfg0\<lparr>baseUrl := []\<rparr>) 0 0 FetchRejects 10 st0 = Inr ([], st0)
   \<and> getEnvValue env0 penv0 (Keys [js ''WP_API_BASE'', js ''PUBLIC_WP_API_BASE'']) = None
   \<and> baseUrl_of env0 penv0 = []
   \<and> new_URL R0 (baseUrl cfg0 @ js ''/wc/v3/products'') \<noteq> Inl TypeError_InvalidURL
   \<and> (\<exists>ps st'. getProducts R0 cfg0 0 0 FetchRejects 10 st0 = Inr (ps, st'))
   \<and> getProducts R0 cfg_noscheme 0 0 FetchRejects 10 st0 = Inl TypeError_InvalidURL"
proof -
  have a: "getEnvValue env0 penv0 (Keys [js ''WP_API_BASE'', js ''PUBLIC_WP_API_BASE'']) = None"
    by (simp add: getEnvValue_def toArray_def env0_def penv0_def js_def)
  show ?thesis
    using getProducts_never_throws_valid_url [of "cfg0\<lparr>baseUrl := []\<rparr>" R0 0 0 FetchRejects 10 st0 env0 penv0]
      getProducts_never_throws_valid_url [of cfg0 R0 0 0 FetchRejects 10 st0 env0 penv0]
      getProducts_never_throws_valid_url [of cfg_noscheme R0 0 0 FetchRejects 10 st0 env0 penv0 TypeError_InvalidURL]
      a cfg0_url cfg_noscheme_base cfg_noscheme_url [of R0] st0_miss [of cfg_noscheme 0 10]
    by simp
qed

text \<open>
  C2: when the live fetch of \<open>getProducts(limit)\<close> fails (\<open>fetch\<close> rejects, the
  response is not OK, or its body does not parse), the result is the first \<open>limit\<close>
  items of the cache entry if there is one with a stored limit of at least \<open>limit\<close>,
  whether fresh or not, and the empty sequence otherwise; the cache slot is unchanged.
\<close>

theorem getProducts_stale_fallback:
  "baseUrl cfg \<noteq> [] \<and> getCachedProducts cfg st now lim = None
   \<and> new_URL R (baseUrl cfg @ js ''/wc/v3/products'') = Inr u \<and> fetch_fails upstream
   \<longrightarrow> (\<exists>st'. getProducts R cfg now later upstream lim st
                = Inr (case productsCache st of
                         None \<Rightarrow> []
                       | Some e \<Rightarrow> if lim \<le> limit e then take lim (items e) else [],
                       st')
              \<and> productsCache st' = productsCache st
              \<and> fetches st' = Suc (fetches st))"
proof -
  have "or_empty (getStaleProducts st lim)
        = (case productsCache st of
             None \<Rightarrow> []
           | Some e \<Rightarrow> if lim \<le> limit e then take lim (items e) else [])"
    by (simp add: or_empty_def getStaleProducts_eq split: option.splits)
  then show ?thesis
    using getProducts_failure [of cfg st now lim R u upstream later]
    by auto
qed

text \<open>
  The cache \<open>st1\<close>, filled for 50, has expired at time 400000; the upstream answers 503:
  \<open>getProducts(50)\<close> returns the cached card, \<open>getProducts(51)\<close> the empty sequence.
\<close>

theorem getProducts_stale_fallback_witness:
  "baseUrl cfg0 \<noteq> [] \<and> getCachedProducts cfg0 st1 400000 50 = None
   \<and> getCachedProducts cfg0 st1 400000 51 = None
   \<and> new_URL R0 (baseUrl cfg0 @ js ''/wc/v3/products'') = Inr (baseUrl cfg0 @ js ''/wc/v3/products'')
   \<and> fetch_fails (Response 503 (JsonItems [item0]))
   \<and> (\<exists>st'. getProducts R0 cfg0 400000 400100 (Response 503 (JsonItems [item0])) 50 st1 = Inr ([card0], st')
              \<and> productsCache st' = productsCache st1)
   \<and> (\<exists>st'. getProducts R0 cfg0 400000 400100 (Response 503 (JsonItems [item0])) 51 st1 = Inr ([], st')
              \<and> productsCache st' = productsCache st1)"
proof -
  have a: "getCachedProducts cfg0 st1 400000 50 = None" "getCachedProducts cfg0 st1 400000 51 = None"
    by (simp_all add: getCachedProducts_def st1_cache)
  have b: "fetch_fails (Response 503 (JsonItems [item0]))"
    by (simp add: fetch_fails_def ok_def)
  show ?thesis
    using getProducts_stale_fallback [of cfg0 st1 400000 50 R0 "baseUrl cfg0 @ js ''/wc/v3/products''"
        "Response 503 (JsonItems [item0])" 400100]
      getProducts_stale_fallback [of cfg0 st1 400000 51 R0 "baseUrl cfg0 @ js ''/wc/v3/products''"
        "Response 503 (JsonItems [item0])" 400100]
      a b cfg0_base cfg0_url
    by (auto simp: st1_cache)
qed

lemma products_replicate: "products_of R0 (replicate n item0) = replicate n card0"
  by (simp add: products_of_def usable_def mapProduct_item0 card0_image)

lemma first_call_51:
  "getProducts R0 cfg0 1000 1000 (Response 200 (JsonItems (replicate 51 item0))) 50 st0
   = Inr (replicate 51 card0, st51)"
  using getProducts_success [of cfg0 st0 1000 50 R0 "baseUrl cfg0 @ js ''/wc/v3/products''" 200 1000
      "replicate 51 item0"]
    cfg0_base st0_miss [of cfg0 1000 50] cfg0_url
  by (simp add: ok_def products_replicate st51_def)

lemma st51_fresh: "getCachedProducts cfg0 st51 2000 50 = Some (replicate 50 card0)"
  by (simp add: getCachedProducts_def st51_def setCache_def cfg0_ttl)

text \<open>
  C4 as stated fails: the upstream answers the request for 50 with 51 usable products.
  The first call returns all 51 and caches them under the limit 50; the second call,
  inside the TTL window, returns only the first 50.
\<close>

theorem cache_idempotence_counterexample:
  "getProducts R0 cfg0 1000 1000 (Response 200 (JsonItems (replicate 51 item0))) 50 st0
     = Inr (replicate 51 card0, st51)
   \<and> getProducts R0 cfg0 2000 2000 (Response 200 (JsonItems (replicate 51 item0))) 50 st51
     = Inr (replicate 50 card0, st51)
   \<and> replicate 50 card0 \<noteq> replicate 51 card0"
proof -
  have "length (replicate 50 card0) \<noteq> length (replicate 51 card0)"
    by simp
  then have "replicate 50 card0 \<noteq> replicate 51 card0"
    by metis
  then show ?thesis
    using first_call_51
      getProducts_fresh [of cfg0 st51 2000 50 "replicate 50 card0" R0 2000
        "Response 200 (JsonItems (replicate 51 item0))"]
      cfg0_base st51_fresh
    by simp
qed

text \<open>
  C4, amended: for every positive TTL and every limit (so for 50), if a call to
  \<open>getProducts(limit)\<close> fetches successfully and populates the cache, then a second call
  with the same limit while the entry is within its TTL window returns the first
  \<open>limit\<close> items of the first call's result, which is the whole of it whenever the
  upstream delivered at most \<open>limit\<close> usable products, and issues no upstream request,
  whatever the upstream would answer.
\<close>

theorem cache_idempotence:
  "0 < cacheTtlMs cfg \<and> baseUrl cfg \<noteq> [] \<and> getCachedProducts cfg st now lim = None
   \<and> new_URL R (baseUrl cfg @ js ''/wc/v3/products'') = Inr u \<and> ok status
   \<and> getProducts R cfg now later (Response status (JsonItems its)) lim st = Inr (ps, st')
   \<and> now2 < later + cacheTtlMs cfg
   \<longrightarrow> getProducts R cfg now2 later2 upstream2 lim st' = Inr (take lim ps, st')
       \<and> (length ps \<le> lim \<longrightarrow> getProducts R cfg now2 later2 upstream2 lim st' = Inr (ps, st'))
       \<and> fetches st' = Suc (fetches st)"
proof (intro impI)
  assume h: "0 < cacheTtlMs cfg \<and> baseUrl cfg \<noteq> [] \<and> getCachedProducts cfg st now lim = None
   \<and> new_URL R (baseUrl cfg @ js ''/wc/v3/products'') = Inr u \<and> ok status
   \<and> getProducts R cfg now later (Response status (JsonItems its)) lim st = Inr (ps, st')
   \<and> now2 < later + cacheTtlMs cfg"
  then have "getProducts R cfg now later (Response status (JsonItems its)) lim st
      = Inr (products_of R its,
             setCache cfg later (products_of R its) lim (st\<lparr>fetches := Suc (fetches st)\<rparr>))"
    using getProducts_success [of cfg st now lim R u status later its] by simp
  with h have ps: "ps = products_of R its"
    and st': "st' = setCache cfg later ps lim (st\<lparr>fetches := Suc (fetches st)\<rparr>)"
    by auto
  from h st' have fresh: "getCachedProducts cfg st' now2 lim = Some (take lim ps)"
    by (simp add: getCachedProducts_def setCache_def)
  from h have second: "getProducts R cfg now2 later2 upstream2 lim st' = Inr (take lim ps, st')"
    using getProducts_fresh [OF _ fresh] by simp
  from st' have "fetches st' = Suc (fetches st)"
    by (simp add: setCache_def)
  with second show "getProducts R cfg now2 later2 upstream2 lim st' = Inr (take lim ps, st')
       \<and> (length ps \<le> lim \<longrightarrow> getProducts R cfg now2 later2 upstream2 lim st' = Inr (ps, st'))
       \<and> fetches st' = Suc (fetches st)"
    by simp
qed

text \<open>
  A first call at time 1000 receives one product; a second call at time 2000 returns the
  same sequence without a request, though the upstream would now reject.
\<close>

theorem cache_idempotence_witness:
  "0 < cacheTtlMs cfg0 \<and> baseUrl cfg0 \<noteq> [] \<and> getCachedProducts cfg0 st0 1000 50 = None
   \<and> ok 200
   \<and> getProducts R0 cfg0 1000 1100 (Response 200 (JsonItems [item0])) 50 st0
        = Inr ([card0], setCache cfg0 1100 [card0] 50 (st0\<lparr>fetches := Suc (fetches st0)\<rparr>))
   \<and> (2000::int) < 1100 + cacheTtlMs cfg0
   \<and> getProducts R0 cfg0 2000 2100 FetchRejects 50
          (setCache cfg0 1100 [card0] 50 (st0\<lparr>fetches := Suc (fetches st0)\<rparr>))
        = Inr ([card0], setCache cfg0 1100 [card0] 50 (st0\<lparr>fetches := Suc (fetches st0)\<rparr>))"
proof -
  have first: "getProducts R0 cfg0 1000 1100 (Response 200 (JsonItems [item0])) 50 st0
        = Inr ([card0], setCache cfg0 1100 [card0] 50 (st0\<lparr>fetches := Suc (fetches st0)\<rparr>))"
    using getProducts_success [of cfg0 st0 1000 50 R0 "baseUrl cfg0 @ js ''/wc/v3/products''" 200 1100
        "[item0]"]
      cfg0_base st0_miss [of cfg0 1000 50] cfg0_url
    by (simp add: ok_def products_item0)
  show ?thesis
    using cache_idempotence [of cfg0 st0 1000 50 R0 "baseUrl cfg0 @ js ''/wc/v3/products''" 200 1100
        "[item0]" "[card0]" "setCache cfg0 1100 [card0] 50 (st0\<lparr>fetches := Suc (fetches st0)\<rparr>)"
        2000 2100 FetchRejects]
      first cfg0_base cfg0_url st0_miss [of cfg0 1000 50]
    by (simp add: ok_def cfg0_ttl)
qed









lemma card_images: "truthy (image card_desc_img)" "\<not> truthy (image card_noimg)"
  by (simp_all add: card_desc_img_def card_noimg_def truthy_def js_def)




section \<open>Lookup by slug\<close>

lemma getProductBySlug_no_base:
  "baseUrl cfg = [] \<Longrightarrow> getProductBySlug R cfg upstream sl st = Inr (None, st)"
  by (simp add: getProductBySlug_def)

lemma getProductBySlug_bad_url:
  "baseUrl cfg \<noteq> [] \<Longrightarrow> new_URL R (baseUrl cfg @ js ''/wc/v3/products'') = Inl e
   \<Longrightarrow> getProductBySlug R cfg upstream sl st = Inl e"
  by (simp add: getProductBySlug_def)

lemma getProductBySlug_failure:
  "baseUrl cfg \<noteq> [] \<Longrightarrow> new_URL R (baseUrl cfg @ js ''/wc/v3/products'') = Inr u
   \<Longrightarrow> fetch_fails upstream
   \<Longrightarrow> getProductBySlug R cfg upstream sl st = Inr (None, st\<lparr>fetches := Suc (fetches st)\<rparr>)"
  by (auto simp: getProductBySlug_def fetchFromWP_def buildUrl_def fetch_fails_def
      split: fetch_result.splits json_body.splits)

lemma getProductBySlug_success:
  "baseUrl cfg \<noteq> [] \<Longrightarrow> new_URL R (baseUrl cfg @ js ''/wc/v3/products'') = Inr u \<Longrightarrow> ok status
   \<Longrightarrow> getProductBySlug R cfg (Response status (JsonItems its)) sl st
       = Inr (case its of
                [] \<Rightarrow> None
              | item # _ \<Rightarrow>
                  (case mapProduct R item of
                     None \<Rightarrow> None
                   | Some mapped \<Rightarrow> if truthy (image mapped) then Some mapped else None),
              st\<lparr>fetches := Suc (fetches st)\<rparr>)"
  by (simp add: getProductBySlug_def fetchFromWP_def buildUrl_def)

lemma getProductBySlug_cache:
  "getProductBySlug R cfg upstream sl st = Inr (r, st') \<Longrightarrow> productsCache st' = productsCache st"
  by (auto simp: getProductBySlug_def fetchFromWP_def buildUrl_def
      split: if_splits sum.splits fetch_result.splits json_body.splits)

lemma getProductBySlug_ignores_cache:
  "map_sum id fst (getProductBySlug R cfg upstream sl (st\<lparr>productsCache := c\<rparr>))
   = map_sum id fst (getProductBySlug R cfg upstream sl st)"
  by (auto simp: getProductBySlug_def fetchFromWP_def buildUrl_def
      split: if_splits sum.splits fetch_result.splits json_body.splits)

lemma getProductBySlug_total:
  assumes "baseUrl cfg = [] \<or> new_URL R (baseUrl cfg @ js ''/wc/v3/products'') \<noteq> Inl TypeError_InvalidURL"
  shows "\<exists>r st'. getProductBySlug R cfg upstream sl st = Inr (r, st')"
proof (cases "baseUrl cfg = []")
  case True
  then show ?thesis by (simp add: getProductBySlug_no_base)
next
  case False
  with assms new_URL_cases [of R "baseUrl cfg @ js ''/wc/v3/products''"]
  have url: "new_URL R (baseUrl cfg @ js ''/wc/v3/products'') = Inr (baseUrl cfg @ js ''/wc/v3/products'')"
    by auto
  from fetch_cases [of upstream] show ?thesis
  proof
    assume "fetch_fails upstream"
    with False url show ?thesis by (simp add: getProductBySlug_failure)
  next
    assume "\<exists>status its. upstream = Response status (JsonItems its) \<and> ok status"
    with False url show ?thesis by (auto simp: getProductBySlug_success)
  qed
qed

lemma getProductBySlug_result:
  assumes "getProductBySlug R cfg upstream sl st = Inr (r, st')"
  shows "(fetch_fails upstream \<longrightarrow> r = None)
     \<and> (\<forall>status. upstream = Response status (JsonItems []) \<longrightarrow> r = None)
     \<and> (\<forall>status item rest m. upstream = Response status (JsonItems (item # rest))
            \<and> mapProduct R item = Some m \<and> \<not> truthy (image m) \<longrightarrow> r = None)
     \<and> (\<forall>m. r = Some m \<longrightarrow> truthy (image m))"
  using assms
  by (auto simp: getProductBySlug_def fetchFromWP_def buildUrl_def fetch_fails_def
      split: if_splits sum.splits fetch_result.splits json_body.splits list.splits option.splits)

lemma getProductBySlug_ignores_slug:
  "getProductBySlug R cfg upstream sl st = getProductBySlug R cfg upstream sl2 st"
  by (simp add: getProductBySlug_def)

lemma getProductBySlug_first_item:
  assumes "getProductBySlug R cfg (Response status (JsonItems (item # rest))) sl st = Inr (r, st')"
    and "ok status" and "baseUrl cfg \<noteq> []"
  shows "r = (case mapProduct R item of
                None \<Rightarrow> None
              | Some m \<Rightarrow> if truthy (image m) then Some m else None)"
  using assms
  by (auto simp: getProductBySlug_def fetchFromWP_def buildUrl_def
      split: if_splits sum.splits option.splits)

lemma slug_differs: "js ''another-slug'' \<noteq> raw_slug item0"
  by (simp add: item0_def js_def)

text \<open>
  C7 as stated fails in two ways. With the base URL \<open>shop.test/wp-json\<close>, which has no
  scheme, \<open>new URL\<close> throws before the \<open>try\<close> block and \<open>getProductBySlug\<close> rejects.
  And the code never compares a slug: it takes the first item of the response, so a
  response whose only item has the slug \<open>olio\<close>, hence holds no item matching the
  requested \<open>another-slug\<close>, is answered with that item's card and not with absent.
\<close>

theorem getProductBySlug_throws_counterexample:
  "getProductBySlug R0 cfg_noscheme (Response 200 (JsonItems [item0])) (js ''olio'') st0
     = Inl TypeError_InvalidURL
   \<and> js ''another-slug'' \<noteq> raw_slug item0
   \<and> getProductBySlug R0 cfg0 (Response 200 (JsonItems [item0])) (js ''another-slug'') st0
     = Inr (Some card0, st0\<lparr>fetches := Suc (fetches st0)\<rparr>)"
proof -
  have a: "getProductBySlug R0 cfg_noscheme (Response 200 (JsonItems [item0])) (js ''olio'') st0
     = Inl TypeError_InvalidURL"
    using getProductBySlug_bad_url [of cfg_noscheme R0 TypeError_InvalidURL
        "Response 200 (JsonItems [item0])" "js ''olio''" st0]
      cfg_noscheme_base cfg_noscheme_url [of R0]
    by simp
  have b: "getProductBySlug R0 cfg0 (Response 200 (JsonItems [item0])) (js ''another-slug'') st0
     = Inr (Some card0, st0\<lparr>fetches := Suc (fetches st0)\<rparr>)"
    using getProductBySlug_success [OF cfg0_base cfg0_url, of 200 "[item0]" "js ''another-slug''" st0]
    by (simp add: ok_def mapProduct_item0 card0_image)
  from a b slug_differs show ?thesis
    by simp
qed

text \<open>
  C7, amended: for every slug and every configuration whose base URL is empty or gives a
  request URL that parses, \<open>getProductBySlug\<close> throws nothing; it returns absent when the
  upstream call fails, when the response holds no item at all, and when the mapped first
  item has no image; every card it returns has an image. The first item of an OK response
  is taken as the match whatever its slug: the result is that item's card if it maps to
  one with an image, and is the same for every requested slug. Whether or not it throws,
  its result does not depend on the cache slot, and the slot is unchanged when it returns.
\<close>

theorem getProductBySlug_absent:
  "(baseUrl cfg = [] \<or> new_URL R (baseUrl cfg @ js ''/wc/v3/products'') \<noteq> Inl TypeError_InvalidURL
      \<longrightarrow> (\<exists>r st'. getProductBySlug R cfg upstream sl st = Inr (r, st')
              \<and> productsCache st' = productsCache st
              \<and> (fetch_fails upstream \<longrightarrow> r = None)
              \<and> (\<forall>status. upstream = Response status (JsonItems []) \<longrightarrow> r = None)
              \<and> (\<forall>status item rest m. upstream = Response status (JsonItems (item # rest))
                     \<and> mapProduct R item = Some m \<and> \<not> truthy (image m) \<longrightarrow> r = None)
              \<and> (\<forall>status item rest. upstream = Response status (JsonItems (item # rest))
                     \<and> ok status \<and> baseUrl cfg \<noteq> []
                     \<longrightarrow> r = (case mapProduct R item of
                                None \<Rightarrow> None
                              | Some m \<Rightarrow> if truthy (image m) then Some m else None))
              \<and> (\<forall>m. r = Some m \<longrightarrow> truthy (image m))))
   \<and> (baseUrl cfg = [] \<longrightarrow> getProductBySlug R cfg upstream sl st = Inr (None, st))
   \<and> getProductBySlug R cfg upstream sl st = getProductBySlug R cfg upstream sl2 st
   \<and> map_sum id fst (getProductBySlug R cfg upstream sl (st\<lparr>productsCache := c\<rparr>))
       = map_sum id fst (getProductBySlug R cfg upstream sl st)"
proof -
  have "\<exists>r st'. getProductBySlug R cfg upstream sl st = Inr (r, st')
              \<and> productsCache st' = productsCache st
              \<and> (fetch_fails upstream \<longrightarrow> r = None)
              \<and> (\<forall>status. upstream = Response status (JsonItems []) \<longrightarrow> r = None)
              \<and> (\<forall>status item rest m. upstream = Response status (JsonItems (item # rest))
                     \<and> mapProduct R item = Some m \<and> \<not> truthy (image m) \<longrightarrow> r = None)
              \<and> (\<forall>status item rest. upstream = Response status (JsonItems (item # rest))
                     \<and> ok status \<and> baseUrl cfg \<noteq> []
                     \<longrightarrow> r = (case mapProduct R item of
                                None \<Rightarrow> None
                              | Some m \<Rightarrow> if truthy (image m) then Some m else None))
              \<and> (\<forall>m. r = Some m \<longrightarrow> truthy (image m))"
    if h: "baseUrl cfg = [] \<or> new_URL R (baseUrl cfg @ js ''/wc/v3/products'') \<noteq> Inl TypeError_InvalidURL"
  proof -
    from getProductBySlug_total [OF h, of upstream sl st]
    obtain r st' where run: "getProductBySlug R cfg upstream sl st = Inr (r, st')"
      by blast
    have first: "\<forall>status item rest. upstream = Response status (JsonItems (item # rest))
                     \<and> ok status \<and> baseUrl cfg \<noteq> []
                     \<longrightarrow> r = (case mapProduct R item of
                                None \<Rightarrow> None
                              | Some m \<Rightarrow> if truthy (image m) then Some m else None)"
      using run getProductBySlug_first_item [of R cfg _ _ _ sl st r st'] by blast
    from getProductBySlug_cache [OF run] getProductBySlug_result [OF run] run first
    show ?thesis by blast
  qed
  then show ?thesis
    using getProductBySlug_no_base [of cfg R upstream sl st]
      getProductBySlug_ignores_slug [of R cfg upstream sl st sl2]
      getProductBySlug_ignores_cache [of R cfg upstream sl c st]
    by blast
qed

text \<open>
  With \<open>cfg0\<close>: a 404 gives absent, an empty array gives absent, a product without image
  gives absent, a product with an image is returned, under its own slug and under any
  other; the filled cache \<open>st1\<close> stays as it is.
\<close>

theorem getProductBySlug_absent_witness:
  "new_URL R0 (baseUrl cfg0 @ js ''/wc/v3/products'') \<noteq> Inl TypeError_InvalidURL
   \<and> fetch_fails (Response 404 (JsonItems [item0]))
   \<and> getProductBySlug R0 cfg0 (Response 404 (JsonItems [item0])) (js ''olio'') st1
      = Inr (None, st1\<lparr>fetches := Suc (fetches st1)\<rparr>)
   \<and> getProductBySlug R0 cfg0 (Response 200 (JsonItems [])) (js ''olio'') st1
      = Inr (None, st1\<lparr>fetches := Suc (fetches st1)\<rparr>)
   \<and> mapProduct R0 item_noimg = Some card_noimg \<and> \<not> truthy (image card_noimg)
   \<and> getProductBySlug R0 cfg0 (Response 200 (JsonItems [item_noimg, item0])) (js ''olio'') st1
      = Inr (None, st1\<lparr>fetches := Suc (fetches st1)\<rparr>)
   \<and> ok 200 \<and> baseUrl cfg0 \<noteq> [] \<and> mapProduct R0 item0 = Some card0 \<and> truthy (image card0)
   \<and> getProductBySlug R0 cfg0 (Response 200 (JsonItems [item0])) (js ''olio'') st1
      = Inr (Some card0, st1\<lparr>fetches := Suc (fetches st1)\<rparr>)
   \<and> getProductBySlug R0 cfg0 (Response 200 (JsonItems [item0])) (js ''another-slug'') st1
      = Inr (Some card0, st1\<lparr>fetches := Suc (fetches st1)\<rparr>)
   \<and> productsCache (st1\<lparr>fetches := Suc (fetches st1)\<rparr>) = productsCache st1"
proof -
  have f: "fetch_fails (Response 404 (JsonItems [item0]))"
    by (simp add: fetch_fails_def ok_def)
  have r1: "getProductBySlug R0 cfg0 (Response 404 (JsonItems [item0])) (js ''olio'') st1
      = Inr (None, st1\<lparr>fetches := Suc (fetches st1)\<rparr>)"
    using getProductBySlug_failure [OF cfg0_base cfg0_url f] by simp
  have r2: "getProductBySlug R0 cfg0 (Response 200 (JsonItems [])) (js ''olio'') st1
      = Inr (None, st1\<lparr>fetches := Suc (fetches st1)\<rparr>)"
    using getProductBySlug_success [OF cfg0_base cfg0_url, of 200 "[]"] by (simp add: ok_def)
  have r3: "getProductBySlug R0 cfg0 (Response 200 (JsonItems [item_noimg, item0])) (js ''olio'') st1
      = Inr (None, st1\<lparr>fetches := Suc (fetches st1)\<rparr>)"
    using getProductBySlug_success [OF cfg0_base cfg0_url, of 200 "[item_noimg, item0]"]
    by (simp add: ok_def mapProduct_noimg card_images)
  have r4: "getProductBySlug R0 cfg0 (Response 200 (JsonItems [item0])) (js ''olio'') st1
      = Inr (Some card0, st1\<lparr>fetches := Suc (fetches st1)\<rparr>)"
    using getProductBySlug_success [OF cfg0_base cfg0_url, of 200 "[item0]"]
    by (simp add: ok_def mapProduct_item0 card0_image)
  note T = getProductBySlug_absent [of cfg0 R0 "Response 404 (JsonItems [item0])" "js ''olio''" st1
      "js ''another-slug''" None]
  from T [THEN conjunct1] cfg0_url r1
  have c: "productsCache (st1\<lparr>fetches := Suc (fetches st1)\<rparr>) = productsCache st1"
    by simp
  note U = getProductBySlug_absent [of cfg0 R0 "Response 200 (JsonItems [item0])" "js ''olio''" st1
      "js ''another-slug''" None]
  from U [THEN conjunct2, THEN conjunct2, THEN conjunct1] r4
  have r5: "getProductBySlug R0 cfg0 (Response 200 (JsonItems [item0])) (js ''another-slug'') st1
      = Inr (Some card0, st1\<lparr>fetches := Suc (fetches st1)\<rparr>)"
    by simp
  have o: "ok 200"
    by (simp add: ok_def)
  from f r1 r2 r3 r4 r5 c o cfg0_base cfg0_url mapProduct_noimg mapProduct_item0 card0_image card_images
  show ?thesis
    by simp
qed

end
